theory Spec2Isabelle
  imports Main
begin

section \<open>Python values and the operations the script applies to them\<close>

text \<open>
  The values the script handles all come out of JSON: the dictionaries the identity
  library returns and the body of the HTTP response. \<open>JNull\<close> is Python's \<open>None\<close>,
  \<open>JObj\<close> a \<open>dict\<close> given by its items in order (a key is looked up with \<open>map_of\<close>,
  so the first binding of a key is the one the dictionary holds), \<open>JArr\<close> a \<open>list\<close>.
  Numbers are the integers; floating-point numbers are left out of the model.
\<close>

datatype json =
    JNull
  | JBool bool
  | JInt int
  | JStr string
  | JArr "json list"
  | JObj "(string \<times> json) list"

type_synonym dict = "(string \<times> json) list"

text \<open>
  An exception is its class and its message (\<open>str(e)\<close>). \<open>KeyboardInterrupt\<close> stands
  for the classes that derive from \<open>BaseException\<close> but not from \<open>Exception\<close>: the
  clause \<open>except Exception\<close> does not catch them.
\<close>

datatype exc_class =
    ValueError
  | KeyError
  | TypeError
  | AttributeError
  | HTTPError
  | RequestException
  | OtherException
  | KeyboardInterrupt

datatype py_exception = PyExc exc_class string

fun is_Exception :: "py_exception \<Rightarrow> bool" where
  "is_Exception (PyExc c m) = (c \<noteq> KeyboardInterrupt)"

fun str_exc :: "py_exception \<Rightarrow> string" where
  "str_exc (PyExc c m) = m"

text \<open>Truth value of a Python object, as \<open>if x\<close> and \<open>not x\<close> test it.\<close>

fun py_truthy :: "json \<Rightarrow> bool" where
  "py_truthy JNull = False"
| "py_truthy (JBool b) = b"
| "py_truthy (JInt i) = (i \<noteq> 0)"
| "py_truthy (JStr s) = (s \<noteq> [])"
| "py_truthy (JArr xs) = (xs \<noteq> [])"
| "py_truthy (JObj kvs) = (kvs \<noteq> [])"

fun type_name :: "json \<Rightarrow> string" where
  "type_name JNull = ''NoneType''"
| "type_name (JBool b) = ''bool''"
| "type_name (JInt i) = ''int''"
| "type_name (JStr s) = ''str''"
| "type_name (JArr xs) = ''list''"
| "type_name (JObj kvs) = ''dict''"

text \<open>Decimal digits of a natural number and of an integer (\<open>str(i)\<close>).\<close>

fun show_nat :: "nat \<Rightarrow> string" where
  "show_nat n =
     (if n < 10 then [''0123456789'' ! n]
      else show_nat (n div 10) @ [''0123456789'' ! (n mod 10)])"

declare show_nat.simps [simp del]

definition show_int :: "int \<Rightarrow> string" where
  "show_int i = (if i < 0 then CHR ''-'' # show_nat (nat (- i)) else show_nat (nat i))"

text \<open>
  \<open>str(x)\<close>, as an f-string formats a value. Python's \<open>repr\<close> of a list or of a
  dictionary is the runtime's; it is taken as the parameter \<open>rp\<close>.
\<close>

fun py_str :: "(json \<Rightarrow> string) \<Rightarrow> json \<Rightarrow> string" where
  "py_str rp JNull = ''None''"
| "py_str rp (JBool b) = (if b then ''True'' else ''False'')"
| "py_str rp (JInt i) = show_int i"
| "py_str rp (JStr s) = s"
| "py_str rp (JArr xs) = rp (JArr xs)"
| "py_str rp (JObj kvs) = rp (JObj kvs)"

text \<open>A string between single quotes, as Python's messages name types and keys.\<close>

definition quoted :: "string \<Rightarrow> string" where
  "quoted s = CHR 0x27 # s @ [CHR 0x27]"

text \<open>
  \<open>x.get(k, d)\<close>: the method of a dictionary; any other object has no attribute
  \<open>get\<close>, and the attribute lookup raises \<open>AttributeError\<close>.
\<close>

fun py_get :: "json \<Rightarrow> string \<Rightarrow> json \<Rightarrow> py_exception + json" where
  "py_get (JObj kvs) k d = Inr (case map_of kvs k of Some v \<Rightarrow> v | None \<Rightarrow> d)"
| "py_get x k d =
     Inl (PyExc AttributeError
       (quoted (type_name x) @ '' object has no attribute '' @ quoted ''get''))"

text \<open>
  The items a \<open>for\<close> loop (here through \<open>enumerate\<close>) draws from an object: the
  elements of a list, the keys of a dictionary, the characters of a string; any other
  object is not iterable.
\<close>

fun py_iter :: "json \<Rightarrow> py_exception + json list" where
  "py_iter (JArr xs) = Inr xs"
| "py_iter (JObj kvs) = Inr (map (\<lambda>kv. JStr (fst kv)) kvs)"
| "py_iter (JStr s) = Inr (map (\<lambda>c. JStr [c]) s)"
| "py_iter x = Inl (PyExc TypeError (quoted (type_name x) @ '' object is not iterable''))"

text \<open>Operations on a value known to be a dictionary: \<open>k in d\<close>, \<open>d[k]\<close>, \<open>d.get(k)\<close>.\<close>

definition has_key :: "string \<Rightarrow> dict \<Rightarrow> bool" where
  "has_key k d = (map_of d k \<noteq> None)"

definition getitem :: "dict \<Rightarrow> string \<Rightarrow> py_exception + json" where
  "getitem d k =
     (case map_of d k of Some v \<Rightarrow> Inr v | None \<Rightarrow> Inl (PyExc KeyError (quoted k)))"

definition dict_get :: "dict \<Rightarrow> string \<Rightarrow> json" where
  "dict_get d k = (case map_of d k of Some v \<Rightarrow> v | None \<Rightarrow> JNull)"

section \<open>Effects: the trace of a run\<close>

text \<open>
  Everything the script does to the outside world is an event of a trace, in the order
  it happens: a line printed on the console (one event per call of \<open>print\<close>, the
  terminating newline left implicit), a call of the identity library, the browser
  launch, the HTTP request with its headers and parameters.
\<close>

datatype event =
    Print string
  | NewApp string string
  | GetAccounts
  | AcquireTokenSilent "string list" json
  | InitiateDeviceFlow "string list"
  | OpenBrowser json
  | AcquireTokenByDeviceFlow dict
  | HttpGet string "(string \<times> string) list" "(string \<times> json) list"

text \<open>
  A computation yields the events it produced and either the exception it raised
  (\<open>Inl\<close>) or its value (\<open>Inr\<close>).
\<close>

type_synonym 'a io = "event list \<times> (py_exception + 'a)"

definition io_return :: "'a \<Rightarrow> 'a io" where
  "io_return x = ([], Inr x)"

definition io_lift :: "py_exception + 'a \<Rightarrow> 'a io" where
  "io_lift r = ([], r)"

definition io_print :: "string \<Rightarrow> unit io" where
  "io_print s = ([Print s], Inr ())"

definition io_call :: "event \<Rightarrow> py_exception + 'a \<Rightarrow> 'a io" where
  "io_call ev r = ([ev], r)"

definition io_bind :: "'a io \<Rightarrow> ('a \<Rightarrow> 'b io) \<Rightarrow> 'b io" where
  "io_bind m f =
     (case m of
        (t, Inl e) \<Rightarrow> (t, Inl e)
      | (t, Inr x) \<Rightarrow> (case f x of (t', r) \<Rightarrow> (t @ t', r)))"

definition io_then :: "unit io \<Rightarrow> 'b io \<Rightarrow> 'b io" where
  "io_then m n = io_bind m (\<lambda>u. n)"

text \<open>\<open>try: m except Exception as e: h e\<close>.\<close>

definition io_try :: "'a io \<Rightarrow> (py_exception \<Rightarrow> 'a io) \<Rightarrow> 'a io" where
  "io_try m h =
     (case m of
        (t, Inl e) \<Rightarrow>
          (if is_Exception e then (case h e of (t', r) \<Rightarrow> (t @ t', r)) else (t, Inl e))
      | (t, Inr x) \<Rightarrow> (t, Inr x))"

section \<open>The environment of a run\<close>

text \<open>
  What the libraries answer is fixed in advance, as a test double would fix it: each
  call either raises or returns. \<open>acquire_token_silent\<close> returns a dictionary or
  \<open>None\<close>, \<open>initiate_device_flow\<close> and \<open>acquire_token_by_device_flow\<close> return
  dictionaries, \<open>requests.get\<close> a response. \<open>py_repr\<close> and \<open>json_dumps\<close> are the
  Python runtime's \<open>repr\<close> and \<open>json.dumps(_, indent=4)\<close>.
\<close>

record response =
  status_code :: int
  reason :: string
  url :: string
  json_body :: "py_exception + json"

record env =
  public_client_application :: "py_exception + unit"
  get_accounts :: "py_exception + json list"
  acquire_token_silent :: "py_exception + dict option"
  initiate_device_flow :: "py_exception + dict"
  webbrowser_open :: "py_exception + bool"
  acquire_token_by_device_flow :: "py_exception + dict"
  requests_get :: "py_exception + response"
  py_repr :: "json \<Rightarrow> string"
  json_dumps :: "dict \<Rightarrow> string"

text \<open>
  \<open>Response.raise_for_status\<close> of the \<open>requests\<close> library: it raises \<open>HTTPError\<close>
  for a status code from 400 to 599 (a client or a server error) and returns for every
  other status code.
\<close>

definition raise_for_status :: "response \<Rightarrow> py_exception + unit" where
  "raise_for_status r =
     (if 400 \<le> status_code r \<and> status_code r < 500 then
        Inl (PyExc HTTPError
          (show_int (status_code r) @ '' Client Error: '' @ reason r @ '' for url: '' @ url r))
      else if 500 \<le> status_code r \<and> status_code r < 600 then
        Inl (PyExc HTTPError
          (show_int (status_code r) @ '' Server Error: '' @ reason r @ '' for url: '' @ url r))
      else Inr ())"

section \<open>The script\<close>

definition CLIENT_ID :: string where
  "CLIENT_ID = ''14d82eec-204b-4c2f-b7e8-296a70dab67e''"

definition TENANT_ID :: string where
  "TENANT_ID = ''common''"

definition SCOPES :: "string list" where
  "SCOPES = [''User.Read'', ''Mail.Read'']"

subsection \<open>\<open>authenticate_graph\<close>\<close>

text \<open>Lines 14 to 24: the application object, the cache lookup, the silent login.\<close>

definition silent_login :: "env \<Rightarrow> dict option io" where
  "silent_login env =
     io_bind (io_call (NewApp CLIENT_ID (''https://login.microsoftonline.com/'' @ TENANT_ID))
                (public_client_application env)) (\<lambda>app.
     io_bind (io_call GetAccounts (get_accounts env)) (\<lambda>accounts.
       case accounts of
         [] \<Rightarrow> io_return None
       | a # rest \<Rightarrow>
           io_then (io_print ''Found cached account, attempting silent login...'')
             (io_call (AcquireTokenSilent SCOPES a) (acquire_token_silent env))))"

text \<open>Lines 28 to 41: the interactive login by device code.\<close>

definition device_login :: "env \<Rightarrow> dict io" where
  "device_login env =
     io_then (io_print ''No cached token found. Starting interactive login...'')
    (io_bind (io_call (InitiateDeviceFlow SCOPES) (initiate_device_flow env)) (\<lambda>flow.
     if \<not> has_key ''user_code'' flow then
       io_lift (Inl (PyExc ValueError
         (''Fail to create device flow. Err: '' @ json_dumps env flow)))
     else
       io_then (io_print (''\<newline>'' @ replicate 60 (CHR ''='')))
      (io_then (io_print ''USER ACTION REQUIRED:'')
      (io_bind (io_lift (getitem flow ''message'')) (\<lambda>message.
       io_then (io_print (py_str (py_repr env) message))
      (io_then (io_print (replicate 60 (CHR ''='') @ ''\<newline>''))
      (io_bind (io_lift (getitem flow ''verification_uri'')) (\<lambda>uri.
       io_bind (io_call (OpenBrowser uri) (webbrowser_open env)) (\<lambda>opened.
       io_call (AcquireTokenByDeviceFlow flow) (acquire_token_by_device_flow env))))))))))"

text \<open>
  Lines 14 to 41: \<open>result\<close> as it stands before line 43. The silent result is kept
  when it is truthy (a dictionary that is not empty); \<open>None\<close> and the empty dictionary
  lead to the interactive login.
\<close>

definition login_result :: "env \<Rightarrow> dict io" where
  "login_result env =
     io_bind (silent_login env) (\<lambda>result.
       case result of
         Some (kv # kvs) \<Rightarrow> io_return (kv # kvs)
       | _ \<Rightarrow> device_login env)"

definition authenticate_graph :: "env \<Rightarrow> json io" where
  "authenticate_graph env =
     io_bind (login_result env) (\<lambda>result.
       if has_key ''access_token'' result then io_lift (getitem result ''access_token'')
       else
         io_then (io_print (''Error: '' @ py_str (py_repr env) (dict_get result ''error'')))
        (io_then (io_print (''Description: '' @
                    py_str (py_repr env) (dict_get result ''error_description'')))
        (io_return JNull)))"

subsection \<open>\<open>fetch_emails_graph\<close>\<close>

text \<open>Line 80: \<open>email.get('from', {}).get('emailAddress', {}).get('address')\<close>.\<close>

definition sender_address :: "json \<Rightarrow> py_exception + json" where
  "sender_address email =
     (case py_get email ''from'' (JObj []) of
        Inl e \<Rightarrow> Inl e
      | Inr f \<Rightarrow>
          (case py_get f ''emailAddress'' (JObj []) of
             Inl e \<Rightarrow> Inl e
           | Inr a \<Rightarrow> py_get a ''address'' JNull))"

text \<open>Lines 79 to 84: the body of the loop, for the message numbered \<open>i\<close>.\<close>

definition print_email :: "(json \<Rightarrow> string) \<Rightarrow> nat \<Rightarrow> json \<Rightarrow> unit io" where
  "print_email rp i email =
     io_then (io_print (''--- Email '' @ show_nat i @ '' ---''))
    (io_bind (io_lift (sender_address email)) (\<lambda>address.
     io_then (io_print (''From:    '' @ py_str rp address))
    (io_bind (io_lift (py_get email ''subject'' JNull)) (\<lambda>subject.
     io_then (io_print (''Subject: '' @ py_str rp subject))
    (io_bind (io_lift (py_get email ''receivedDateTime'' JNull)) (\<lambda>received.
     io_then (io_print (''Date:    '' @ py_str rp received))
    (io_bind (io_lift (py_get email ''bodyPreview'' JNull)) (\<lambda>preview.
     io_then (io_print (''Preview: '' @ py_str rp preview))
             (io_print '''')))))))))"

text \<open>Line 78: the loop over \<open>enumerate(emails, 1)\<close>, from the number \<open>i\<close> on.\<close>

fun print_emails :: "(json \<Rightarrow> string) \<Rightarrow> nat \<Rightarrow> json list \<Rightarrow> unit io" where
  "print_emails rp i [] = io_return ()"
| "print_emails rp i (email # rest) =
     io_then (print_email rp i email) (print_emails rp (Suc i) rest)"

definition endpoint :: string where
  "endpoint = ''https://graph.microsoft.com/v1.0/me/messages''"

definition headers :: "(json \<Rightarrow> string) \<Rightarrow> json \<Rightarrow> (string \<times> string) list" where
  "headers rp token =
     [(''Authorization'', ''Bearer '' @ py_str rp token),
      (''Content-Type'', ''application/json'')]"

definition params :: "(string \<times> json) list" where
  "params =
     [(''$top'', JInt 5),
      (''$orderby'', JStr ''receivedDateTime desc''),
      (''$select'', JStr ''subject,from,receivedDateTime,bodyPreview'')]"

text \<open>Lines 73 to 84: the body of the \<open>try\<close> statement.\<close>

definition fetch_body :: "env \<Rightarrow> json \<Rightarrow> unit io" where
  "fetch_body env token =
     io_bind (io_call (HttpGet endpoint (headers (py_repr env) token) params)
                (requests_get env)) (\<lambda>response.
     io_bind (io_lift (raise_for_status response)) (\<lambda>u.
     io_bind (io_lift (json_body response)) (\<lambda>body.
     io_bind (io_lift (py_get body ''value'' (JArr []))) (\<lambda>emails.
     io_bind (io_lift (py_iter emails)) (\<lambda>items.
     print_emails (py_repr env) 1 items)))))"

text \<open>Lines 53 to 87: what \<open>fetch_emails_graph\<close> does with the token.\<close>

definition fetch_with_token :: "env \<Rightarrow> json \<Rightarrow> unit io" where
  "fetch_with_token env token =
     (if \<not> py_truthy token then io_print ''Authentication failed. Exiting.''
      else
        io_then (io_print
          ''\<newline>Successfully authenticated! Fetching emails via Microsoft Graph...\<newline>'')
          (io_try (fetch_body env token)
             (\<lambda>e. io_print (''An error occurred: '' @ str_exc e))))"

definition fetch_emails_graph :: "env \<Rightarrow> unit io" where
  "fetch_emails_graph env = io_bind (authenticate_graph env) (fetch_with_token env)"

section \<open>Observations on a trace\<close>

text \<open>The lines of the console, in order.\<close>

fun printed :: "event list \<Rightarrow> string list" where
  "printed [] = []"
| "printed (Print s # t) = s # printed t"
| "printed (ev # t) = printed t"

fun is_silent_request :: "event \<Rightarrow> bool" where
  "is_silent_request (AcquireTokenSilent s a) = True"
| "is_silent_request ev = False"

fun is_device_flow_request :: "event \<Rightarrow> bool" where
  "is_device_flow_request (InitiateDeviceFlow s) = True"
| "is_device_flow_request ev = False"

fun is_browser_launch :: "event \<Rightarrow> bool" where
  "is_browser_launch (OpenBrowser u) = True"
| "is_browser_launch ev = False"

fun is_device_flow_poll :: "event \<Rightarrow> bool" where
  "is_device_flow_poll (AcquireTokenByDeviceFlow f) = True"
| "is_device_flow_poll ev = False"

fun is_http_request :: "event \<Rightarrow> bool" where
  "is_http_request (HttpGet u h p) = True"
| "is_http_request ev = False"

definition success_banner :: string where
  "success_banner =
     ''\<newline>Successfully authenticated! Fetching emails via Microsoft Graph...\<newline>''"

section \<open>The message summaries of the specification\<close>

text \<open>
  The specification describes the fetch step as a map from the objects of the results
  array to message summaries, each printed as a numbered block. These definitions follow
  its words, to be compared with what \<open>fetch_emails_graph\<close> prints: a field that is
  missing is the absent value \<open>JNull\<close>.
\<close>

record message_summary =
  ms_sender :: json
  ms_subject :: json
  ms_date :: json
  ms_preview :: json

definition field_of :: "json \<Rightarrow> string \<Rightarrow> json" where
  "field_of m k =
     (case m of
        JObj kvs \<Rightarrow> (case map_of kvs k of Some v \<Rightarrow> v | None \<Rightarrow> JNull)
      | _ \<Rightarrow> JNull)"

definition summary :: "json \<Rightarrow> message_summary" where
  "summary m =
     \<lparr>ms_sender = field_of (field_of (field_of m ''from'') ''emailAddress'') ''address'',
      ms_subject = field_of m ''subject'',
      ms_date = field_of m ''receivedDateTime'',
      ms_preview = field_of m ''bodyPreview''\<rparr>"

definition email_block :: "(json \<Rightarrow> string) \<Rightarrow> nat \<Rightarrow> message_summary \<Rightarrow> string list" where
  "email_block rp i s =
     [''--- Email '' @ show_nat i @ '' ---'',
      ''From:    '' @ py_str rp (ms_sender s),
      ''Subject: '' @ py_str rp (ms_subject s),
      ''Date:    '' @ py_str rp (ms_date s),
      ''Preview: '' @ py_str rp (ms_preview s),
      []]"

text \<open>The blocks of the summaries \<open>ss\<close>, numbered \<open>i\<close>, \<open>i + 1\<close>, ... in their order.\<close>

definition email_blocks :: "(json \<Rightarrow> string) \<Rightarrow> nat \<Rightarrow> message_summary list \<Rightarrow> string list" where
  "email_blocks rp i ss = concat (map2 (email_block rp) [i ..< i + length ss] ss)"

text \<open>
  A message object whose \<open>from\<close> value and, inside it, whose \<open>emailAddress\<close> value
  are objects wherever they are present.
\<close>

definition well_formed_message :: "json \<Rightarrow> bool" where
  "well_formed_message m =
     (case m of
        JObj kvs \<Rightarrow>
          (case map_of kvs ''from'' of
             None \<Rightarrow> True
           | Some (JObj f) \<Rightarrow>
               (case map_of f ''emailAddress'' of
                  None \<Rightarrow> True
                | Some (JObj a) \<Rightarrow> True
                | Some x \<Rightarrow> False)
           | Some x \<Rightarrow> False)
      | _ \<Rightarrow> False)"


section \<open>Example runs\<close>

definition example_flow :: dict where
  "example_flow =
     [(''user_code'', JStr ''ABCD1234''),
      (''verification_uri'', JStr ''https://microsoft.com/devicelogin''),
      (''message'', JStr ''Open https://microsoft.com/devicelogin and enter ABCD1234'')]"

definition example_messages :: "json list" where
  "example_messages =
     [JObj [(''subject'', JStr ''Lunch''),
            (''from'', JObj [(''emailAddress'', JObj [(''address'', JStr ''ann@example.com'')])]),
            (''receivedDateTime'', JStr ''2024-05-02T10:00:00Z''),
            (''bodyPreview'', JStr ''Noon?'')],
      JObj [(''subject'', JStr ''Report''),
            (''from'', JObj [(''emailAddress'', JObj [(''address'', JStr ''bob@example.com'')])]),
            (''receivedDateTime'', JStr ''2024-05-01T09:00:00Z''),
            (''bodyPreview'', JStr ''Attached.'')]]"

definition example_response :: "int \<Rightarrow> json \<Rightarrow> response" where
  "example_response code body =
     \<lparr>status_code = code, reason = ''R'', url = endpoint, json_body = Inr body\<rparr>"

text \<open>
  A run with a cached account whose silent login yields the token \<open>tok-1\<close> and a
  response 200 with two messages.
\<close>

definition example_env :: env where
  "example_env =
     \<lparr>public_client_application = Inr (),
      get_accounts = Inr [JObj [(''username'', JStr ''me@example.com'')]],
      acquire_token_silent = Inr (Some [(''access_token'', JStr ''tok-1'')]),
      initiate_device_flow = Inr example_flow,
      webbrowser_open = Inr True,
      acquire_token_by_device_flow = Inr [(''access_token'', JStr ''tok-2'')],
      requests_get = Inr (example_response 200 (JObj [(''value'', JArr example_messages)])),
      py_repr = (\<lambda>v. []),
      json_dumps = (\<lambda>d. ''{}'')\<rparr>"

text \<open>The result of a login the user declined.\<close>

definition denied :: dict where
  "denied = [(''error'', JStr ''authorization_declined''),
             (''error_description'', JStr ''The user declined'')]"

text \<open>The events of the login of \<open>example_env\<close>.\<close>

definition example_login :: "event list" where
  "example_login =
     [NewApp CLIENT_ID (''https://login.microsoftonline.com/'' @ TENANT_ID), GetAccounts,
      Print ''Found cached account, attempting silent login...'',
      AcquireTokenSilent SCOPES (JObj [(''username'', JStr ''me@example.com'')])]"

section \<open>Replacing the token of a run\<close>

text \<open>
  To state that the console does not depend on the token, the access token of an
  environment is replaced: \<open>with_tokens f env\<close> answers as \<open>env\<close> does, except that the
  value \<open>v\<close> bound to \<open>access_token\<close> in the results of the silent acquisition and of the
  device flow is \<open>f v\<close>. \<open>redact\<close> blanks the value of the \<open>Authorization\<close> header of
  an HTTP request and leaves every other event as it is.
\<close>

definition swap_token :: "(json \<Rightarrow> json) \<Rightarrow> dict \<Rightarrow> dict" where
  "swap_token f d =
     map (\<lambda>kv. if fst kv = ''access_token'' then (fst kv, f (snd kv)) else kv) d"

definition with_tokens :: "(json \<Rightarrow> json) \<Rightarrow> env \<Rightarrow> env" where
  "with_tokens f env =
     env\<lparr>acquire_token_silent :=
           map_sum id (map_option (swap_token f)) (acquire_token_silent env),
         acquire_token_by_device_flow :=
           map_sum id (swap_token f) (acquire_token_by_device_flow env)\<rparr>"

fun redact :: "event \<Rightarrow> event" where
  "redact (HttpGet u h p) =
     HttpGet u (map (\<lambda>kv. if fst kv = ''Authorization'' then (fst kv, []) else kv) h) p"
| "redact ev = ev"


section \<open>Basic facts about computations\<close>

lemmas io_defs = io_bind_def io_then_def io_print_def io_call_def io_lift_def io_return_def

lemma fst_io_bind:
  "fst (io_bind m f) = fst m @ (case snd m of Inl e \<Rightarrow> [] | Inr x \<Rightarrow> fst (f x))"
  by (cases m) (simp add: io_bind_def split: sum.split prod.split)

lemma snd_io_bind:
  "snd (io_bind m f) = (case snd m of Inl e \<Rightarrow> Inl e | Inr x \<Rightarrow> snd (f x))"
  by (cases m) (simp add: io_bind_def split: sum.split prod.split)

lemma fst_io_then:
  "fst (io_then m n) = fst m @ (case snd m of Inl e \<Rightarrow> [] | Inr x \<Rightarrow> fst n)"
  by (simp add: io_then_def fst_io_bind)

section \<open>Authentication\<close>

lemma silent_login_cached:
  assumes "public_client_application env = Inr u" "get_accounts env = Inr (a # rest)"
  shows "silent_login env =
    ([NewApp CLIENT_ID (''https://login.microsoftonline.com/'' @ TENANT_ID), GetAccounts,
      Print ''Found cached account, attempting silent login...'',
      AcquireTokenSilent SCOPES a], acquire_token_silent env)"
  using assms by (simp add: silent_login_def io_defs)

lemma snd_silent_login:
  "snd (silent_login env) =
     (case public_client_application env of
        Inl e \<Rightarrow> Inl e
      | Inr u \<Rightarrow>
          (case get_accounts env of
             Inl e \<Rightarrow> Inl e
           | Inr [] \<Rightarrow> Inr None
           | Inr (a # rest) \<Rightarrow> acquire_token_silent env))"
  by (simp add: silent_login_def snd_io_bind io_then_def io_call_def io_print_def io_return_def
        split: sum.split list.split)

lemma silent_login_events:
  "filter is_http_request (fst (silent_login env)) = []
   \<and> length (filter is_silent_request (fst (silent_login env))) \<le> 1
   \<and> filter is_device_flow_request (fst (silent_login env)) = []
   \<and> filter is_device_flow_poll (fst (silent_login env)) = []"
  by (simp add: silent_login_def fst_io_bind fst_io_then io_call_def io_print_def io_return_def
        split: sum.split list.split)

lemma device_login_events:
  "filter is_http_request (fst (device_login env)) = []
   \<and> filter is_silent_request (fst (device_login env)) = []
   \<and> length (filter is_device_flow_request (fst (device_login env))) \<le> 1
   \<and> length (filter is_device_flow_poll (fst (device_login env))) \<le> 1"
  by (simp add: device_login_def fst_io_bind fst_io_then io_call_def io_print_def io_lift_def
        split: sum.split)

lemma login_result_attempts:
  "filter is_http_request (fst (login_result env)) = []
   \<and> length (filter is_silent_request (fst (login_result env))) \<le> 1
   \<and> length (filter is_device_flow_request (fst (login_result env))) \<le> 1
   \<and> length (filter is_device_flow_poll (fst (login_result env))) \<le> 1"
  using silent_login_events [of env] device_login_events [of env]
  by (simp add: login_result_def fst_io_bind io_return_def
        split: sum.split list.split option.split)

lemma authenticate_graph_failure:
  assumes "login_result env = (t, Inr r)" and "\<not> has_key ''access_token'' r"
  shows "authenticate_graph env =
    (t @ [Print (''Error: '' @ py_str (py_repr env) (dict_get r ''error'')),
          Print (''Description: '' @ py_str (py_repr env) (dict_get r ''error_description''))],
     Inr JNull)"
  using assms by (simp add: authenticate_graph_def io_defs)

lemma device_request_origin:
  assumes "list_ex is_device_flow_request (fst (authenticate_graph env))"
  shows "snd (silent_login env) = Inr None \<or> snd (silent_login env) = Inr (Some [])"
proof -
  have a: "filter is_device_flow_request (fst (authenticate_graph env))
         = filter is_device_flow_request (fst (login_result env))"
    by (simp add: authenticate_graph_def fst_io_bind fst_io_then io_print_def io_lift_def
          io_return_def split: sum.split)
  have b: "filter is_device_flow_request (fst (silent_login env)) = []"
    using silent_login_events [of env] by simp
  from assms have "filter is_device_flow_request (fst (authenticate_graph env)) \<noteq> []"
    by (simp add: list_ex_iff filter_empty_conv)
  with a have "filter is_device_flow_request (fst (login_result env)) \<noteq> []" by simp
  with b show ?thesis
    by (simp add: login_result_def fst_io_bind io_return_def
          split: sum.splits option.splits list.splits)
qed

lemma login_result_denied:
  "login_result (example_env\<lparr>get_accounts := Inr [],
       acquire_token_by_device_flow := Inr denied\<rparr>) =
    ([NewApp CLIENT_ID (''https://login.microsoftonline.com/'' @ TENANT_ID), GetAccounts,
      Print ''No cached token found. Starting interactive login...'',
      InitiateDeviceFlow SCOPES,
      Print (''\<newline>'' @ replicate 60 (CHR ''='')),
      Print ''USER ACTION REQUIRED:'',
      Print ''Open https://microsoft.com/devicelogin and enter ABCD1234'',
      Print (replicate 60 (CHR ''='') @ ''\<newline>''),
      OpenBrowser (JStr ''https://microsoft.com/devicelogin''),
      AcquireTokenByDeviceFlow example_flow], Inr denied)"
  by (simp add: login_result_def silent_login_def device_login_def io_defs example_env_def
        example_flow_def has_key_def getitem_def)

text \<open>
  Claim C2. When a cached account exists and the silent acquisition returns a result that
  holds an access token, \<open>authenticate_graph\<close> returns that token after four events:
  the application object, the cache lookup, the line announcing the silent login and the
  silent request. No device-flow request is made, no browser is launched, and the
  announcement is the only line printed: no user code, no verification message.
\<close>

theorem cached_token_skips_device_flow:
  assumes "public_client_application env = Inr u"
    and "get_accounts env = Inr (a # rest)"
    and "acquire_token_silent env = Inr (Some r)"
    and "map_of r ''access_token'' = Some tok"
  shows "authenticate_graph env =
    ([NewApp CLIENT_ID (''https://login.microsoftonline.com/'' @ TENANT_ID), GetAccounts,
      Print ''Found cached account, attempting silent login...'',
      AcquireTokenSilent SCOPES a], Inr tok)
    \<and> \<not> list_ex is_device_flow_request (fst (authenticate_graph env))
    \<and> \<not> list_ex is_device_flow_poll (fst (authenticate_graph env))
    \<and> \<not> list_ex is_browser_launch (fst (authenticate_graph env))
    \<and> printed (fst (authenticate_graph env)) =
        [''Found cached account, attempting silent login...'']"
proof -
  from assms(4) obtain kv kvs where r: "r = kv # kvs" by (cases r) auto
  have "login_result env =
    ([NewApp CLIENT_ID (''https://login.microsoftonline.com/'' @ TENANT_ID), GetAccounts,
      Print ''Found cached account, attempting silent login...'',
      AcquireTokenSilent SCOPES a], Inr r)"
    using silent_login_cached [OF assms(1,2)] assms(3) r
    by (simp add: login_result_def io_defs)
  then have "authenticate_graph env =
    ([NewApp CLIENT_ID (''https://login.microsoftonline.com/'' @ TENANT_ID), GetAccounts,
      Print ''Found cached account, attempting silent login...'',
      AcquireTokenSilent SCOPES a], Inr tok)"
    using assms(4) by (simp add: authenticate_graph_def io_defs has_key_def getitem_def)
  then show ?thesis by simp
qed

theorem cached_token_skips_device_flow_witness:
  "authenticate_graph example_env =
    ([NewApp CLIENT_ID (''https://login.microsoftonline.com/'' @ TENANT_ID), GetAccounts,
      Print ''Found cached account, attempting silent login...'',
      AcquireTokenSilent SCOPES (JObj [(''username'', JStr ''me@example.com'')])],
     Inr (JStr ''tok-1''))"
  using cached_token_skips_device_flow [of example_env "()"
      "JObj [(''username'', JStr ''me@example.com'')]" "[]"
      "[(''access_token'', JStr ''tok-1'')]" "JStr ''tok-1''"]
  by (simp add: example_env_def)

text \<open>
  Claim C3. When the login ends with a result that holds no access token,
  \<open>authenticate_graph\<close> prints the result's \<open>error\<close> and \<open>error_description\<close> and
  returns \<open>None\<close>; \<open>fetch_emails_graph\<close> then prints that authentication failed and
  returns. The run holds no HTTP request, and each request of the login (silent
  acquisition, device-flow initiation, device-flow polling) is made at most once.
\<close>

theorem authentication_failure_aborts:
  assumes "login_result env = (t, Inr r)" and "\<not> has_key ''access_token'' r"
  shows "authenticate_graph env =
      (t @ [Print (''Error: '' @ py_str (py_repr env) (dict_get r ''error'')),
            Print (''Description: '' @ py_str (py_repr env) (dict_get r ''error_description''))],
       Inr JNull)
    \<and> fetch_emails_graph env =
      (t @ [Print (''Error: '' @ py_str (py_repr env) (dict_get r ''error'')),
            Print (''Description: '' @ py_str (py_repr env) (dict_get r ''error_description'')),
            Print ''Authentication failed. Exiting.''],
       Inr ())
    \<and> \<not> list_ex is_http_request (fst (fetch_emails_graph env))
    \<and> length (filter is_silent_request (fst (fetch_emails_graph env))) \<le> 1
    \<and> length (filter is_device_flow_request (fst (fetch_emails_graph env))) \<le> 1
    \<and> length (filter is_device_flow_poll (fst (fetch_emails_graph env))) \<le> 1"
proof -
  note auth = authenticate_graph_failure [OF assms]
  have run: "fetch_emails_graph env =
      (t @ [Print (''Error: '' @ py_str (py_repr env) (dict_get r ''error'')),
            Print (''Description: '' @ py_str (py_repr env) (dict_get r ''error_description'')),
            Print ''Authentication failed. Exiting.''],
       Inr ())"
    by (simp add: fetch_emails_graph_def auth fetch_with_token_def io_defs)
  have t: "fst (login_result env) = t" using assms(1) by simp
  from login_result_attempts [of env] t
  have "filter is_http_request t = []"
    and "length (filter is_silent_request t) \<le> 1"
    and "length (filter is_device_flow_request t) \<le> 1"
    and "length (filter is_device_flow_poll t) \<le> 1"
    by simp_all
  with auth run show ?thesis by (simp add: list_ex_iff filter_empty_conv)
qed

theorem authentication_failure_aborts_witness:
  "fetch_emails_graph (example_env\<lparr>get_accounts := Inr [],
       acquire_token_by_device_flow := Inr denied\<rparr>) =
    ([NewApp CLIENT_ID (''https://login.microsoftonline.com/'' @ TENANT_ID), GetAccounts,
      Print ''No cached token found. Starting interactive login...'',
      InitiateDeviceFlow SCOPES,
      Print (''\<newline>'' @ replicate 60 (CHR ''='')),
      Print ''USER ACTION REQUIRED:'',
      Print ''Open https://microsoft.com/devicelogin and enter ABCD1234'',
      Print (replicate 60 (CHR ''='') @ ''\<newline>''),
      OpenBrowser (JStr ''https://microsoft.com/devicelogin''),
      AcquireTokenByDeviceFlow example_flow,
      Print ''Error: authorization_declined'',
      Print ''Description: The user declined'',
      Print ''Authentication failed. Exiting.''], Inr ())"
proof -
  have "\<not> has_key ''access_token'' denied" by (simp add: has_key_def denied_def)
  from authentication_failure_aborts [OF login_result_denied this]
  show ?thesis by (simp add: dict_get_def denied_def)
qed

text \<open>
  Claim C9. When the silent acquisition returns a dictionary that is not empty and holds
  no access token, \<open>authenticate_graph\<close> makes no device-flow request: after the silent
  request it prints the result's \<open>error\<close> and \<open>error_description\<close> and returns
  \<open>None\<close>. A device-flow request appears in a run of \<open>authenticate_graph\<close> only when
  the cache holds no account, or when the silent result is falsy (\<open>None\<close> or the empty
  dictionary).
\<close>

theorem silent_error_skips_device_flow:
  "(public_client_application env = Inr u \<and> get_accounts env = Inr (a # rest)
      \<and> acquire_token_silent env = Inr (Some r) \<and> r \<noteq> [] \<and> \<not> has_key ''access_token'' r
     \<longrightarrow> authenticate_graph env =
       ([NewApp CLIENT_ID (''https://login.microsoftonline.com/'' @ TENANT_ID), GetAccounts,
         Print ''Found cached account, attempting silent login...'',
         AcquireTokenSilent SCOPES a,
         Print (''Error: '' @ py_str (py_repr env) (dict_get r ''error'')),
         Print (''Description: '' @ py_str (py_repr env) (dict_get r ''error_description''))],
        Inr JNull))
   \<and> (list_ex is_device_flow_request (fst (authenticate_graph env))
     \<longrightarrow> get_accounts env = Inr []
        \<or> (\<exists>b bs. get_accounts env = Inr (b # bs)
              \<and> (acquire_token_silent env = Inr None \<or> acquire_token_silent env = Inr (Some []))))"
proof (intro conjI impI)
  assume h: "public_client_application env = Inr u \<and> get_accounts env = Inr (a # rest)
      \<and> acquire_token_silent env = Inr (Some r) \<and> r \<noteq> [] \<and> \<not> has_key ''access_token'' r"
  then obtain kv kvs where r: "r = kv # kvs" by (cases r) auto
  have "login_result env =
    ([NewApp CLIENT_ID (''https://login.microsoftonline.com/'' @ TENANT_ID), GetAccounts,
      Print ''Found cached account, attempting silent login...'',
      AcquireTokenSilent SCOPES a], Inr r)"
    using h silent_login_cached [of env u a rest] r
    by (simp add: login_result_def io_defs)
  from authenticate_graph_failure [OF this] h
  show "authenticate_graph env =
       ([NewApp CLIENT_ID (''https://login.microsoftonline.com/'' @ TENANT_ID), GetAccounts,
         Print ''Found cached account, attempting silent login...'',
         AcquireTokenSilent SCOPES a,
         Print (''Error: '' @ py_str (py_repr env) (dict_get r ''error'')),
         Print (''Description: '' @ py_str (py_repr env) (dict_get r ''error_description''))],
        Inr JNull)"
    by simp
next
  assume "list_ex is_device_flow_request (fst (authenticate_graph env))"
  from device_request_origin [OF this]
  show "get_accounts env = Inr []
        \<or> (\<exists>b bs. get_accounts env = Inr (b # bs)
              \<and> (acquire_token_silent env = Inr None \<or> acquire_token_silent env = Inr (Some [])))"
    by (auto simp add: snd_silent_login split: sum.splits list.splits)
qed

theorem silent_error_skips_device_flow_witness:
  "authenticate_graph (example_env\<lparr>acquire_token_silent := Inr (Some denied)\<rparr>) =
    ([NewApp CLIENT_ID (''https://login.microsoftonline.com/'' @ TENANT_ID), GetAccounts,
      Print ''Found cached account, attempting silent login...'',
      AcquireTokenSilent SCOPES (JObj [(''username'', JStr ''me@example.com'')]),
      Print ''Error: authorization_declined'',
      Print ''Description: The user declined''], Inr JNull)
   \<and> list_ex is_device_flow_request
        (fst (authenticate_graph (example_env\<lparr>get_accounts := Inr []\<rparr>)))
   \<and> get_accounts (example_env\<lparr>get_accounts := Inr []\<rparr>) = Inr []"
proof -
  have a: "authenticate_graph (example_env\<lparr>acquire_token_silent := Inr (Some denied)\<rparr>) =
    ([NewApp CLIENT_ID (''https://login.microsoftonline.com/'' @ TENANT_ID), GetAccounts,
      Print ''Found cached account, attempting silent login...'',
      AcquireTokenSilent SCOPES (JObj [(''username'', JStr ''me@example.com'')]),
      Print ''Error: authorization_declined'',
      Print ''Description: The user declined''], Inr JNull)"
    using silent_error_skips_device_flow
      [of "example_env\<lparr>acquire_token_silent := Inr (Some denied)\<rparr>" "()"
        "JObj [(''username'', JStr ''me@example.com'')]" "[]" denied]
    by (simp add: example_env_def denied_def has_key_def dict_get_def)
  have b: "list_ex is_device_flow_request
        (fst (authenticate_graph (example_env\<lparr>get_accounts := Inr []\<rparr>)))"
    by (simp add: authenticate_graph_def login_result_def silent_login_def device_login_def
          io_defs example_env_def example_flow_def has_key_def getitem_def)
  from a b show ?thesis by (simp add: example_env_def)
qed

lemma sender_address_well_formed:
  assumes "well_formed_message m"
  shows "sender_address m = Inr (ms_sender (summary m))"
proof -
  from assms obtain kvs where m: "m = JObj kvs"
    by (cases m) (simp_all add: well_formed_message_def)
  show ?thesis
  proof (cases "map_of kvs ''from''")
    case None
    then show ?thesis
      by (simp add: m sender_address_def summary_def field_of_def)
  next
    case (Some f)
    with assms m obtain fk where f: "f = JObj fk"
      by (cases f) (simp_all add: well_formed_message_def)
    show ?thesis
    proof (cases "map_of fk ''emailAddress''")
      case None
      with Some f show ?thesis
        by (simp add: m sender_address_def summary_def field_of_def)
    next
      case (Some a)
      with assms m \<open>map_of kvs ''from'' = Some f\<close> f obtain ak where a: "a = JObj ak"
        by (cases a) (simp_all add: well_formed_message_def)
      from Some a f \<open>map_of kvs ''from'' = Some f\<close> show ?thesis
        by (simp add: m sender_address_def summary_def field_of_def)
    qed
  qed
qed

lemma print_email_well_formed:
  assumes "well_formed_message m"
  shows "print_email rp i m = (map Print (email_block rp i (summary m)), Inr ())"
proof -
  from assms obtain kvs where m: "m = JObj kvs"
    by (cases m) (simp_all add: well_formed_message_def)
  have s: "sender_address m = Inr (ms_sender (summary m))"
    using assms by (rule sender_address_well_formed)
  have g: "\<And>k. py_get m k JNull = Inr (field_of m k)"
    by (simp add: m field_of_def)
  show ?thesis
    unfolding print_email_def s g
    by (simp add: io_defs email_block_def summary_def)
qed

lemma email_blocks_Nil: "email_blocks rp i [] = []"
  by (simp add: email_blocks_def)

lemma email_blocks_Cons:
  "email_blocks rp i (s # ss) = email_block rp i s @ email_blocks rp (Suc i) ss"
proof -
  have "[i ..< i + length (s # ss)] = i # [Suc i ..< Suc i + length ss]"
    by (simp add: upt_conv_Cons del: upt_Suc)
  then show ?thesis by (simp add: email_blocks_def)
qed

lemma print_emails_well_formed:
  assumes "\<forall>m \<in> set ms. well_formed_message m"
  shows "print_emails rp i ms = (map Print (email_blocks rp i (map summary ms)), Inr ())"
  using assms
proof (induction ms arbitrary: i)
  case Nil
  show ?case by (simp add: io_return_def email_blocks_Nil)
next
  case (Cons m ms)
  then have "print_emails rp (Suc i) ms =
      (map Print (email_blocks rp (Suc i) (map summary ms)), Inr ())"
    by simp
  moreover have "print_email rp i m = (map Print (email_block rp i (summary m)), Inr ())"
    using Cons.prems by (simp add: print_email_well_formed)
  ultimately show ?case
    by (simp add: io_then_def io_bind_def email_blocks_Cons)
qed

lemma printed_append: "printed (t @ t') = printed t @ printed t'"
  by (induction t rule: printed.induct) simp_all

lemma printed_map_Print: "printed (map Print ls) = ls"
  by (induction ls) simp_all

lemma status_2xx_passes:
  assumes "200 \<le> status_code resp" and "status_code resp < 300"
  shows "raise_for_status resp = Inr ()"
  using assms by (simp add: raise_for_status_def)

lemma fetch_body_items:
  assumes "requests_get env = Inr resp" and "raise_for_status resp = Inr ()"
    and "json_body resp = Inr (JObj body)"
    and "py_iter (case map_of body ''value'' of Some v \<Rightarrow> v | None \<Rightarrow> JArr []) = Inr items"
  shows "fetch_body env token =
    (HttpGet endpoint (headers (py_repr env) token) params
       # fst (print_emails (py_repr env) 1 items),
     snd (print_emails (py_repr env) 1 items))"
  using assms by (simp add: fetch_body_def io_defs split: prod.split)

lemma fetch_emails_graph_token:
  assumes "authenticate_graph env = (t, Inr token)"
  shows "fetch_emails_graph env =
    (t @ fst (fetch_with_token env token), snd (fetch_with_token env token))"
  using assms by (simp add: fetch_emails_graph_def io_bind_def split: prod.split)

lemma fetch_with_token_returns:
  assumes "py_truthy token" and "fetch_body env token = (t, Inr ())"
  shows "fetch_with_token env token = (Print success_banner # t, Inr ())"
  using assms by (simp add: fetch_with_token_def io_defs io_try_def success_banner_def)

lemma fetch_with_token_caught:
  assumes "py_truthy token" and "fetch_body env token = (t, Inl e)" and "is_Exception e"
  shows "fetch_with_token env token =
    (Print success_banner # t @ [Print (''An error occurred: '' @ str_exc e)], Inr ())"
  using assms by (simp add: fetch_with_token_def io_defs io_try_def success_banner_def)

lemma run_well_formed:
  assumes "authenticate_graph env = (t, Inr token)" and "py_truthy token"
    and "requests_get env = Inr resp" and "raise_for_status resp = Inr ()"
    and "json_body resp = Inr (JObj body)"
    and "py_iter (case map_of body ''value'' of Some v \<Rightarrow> v | None \<Rightarrow> JArr []) = Inr msgs"
    and "\<forall>m \<in> set msgs. well_formed_message m"
  shows "fetch_emails_graph env =
    (t @ [Print success_banner, HttpGet endpoint (headers (py_repr env) token) params]
       @ map Print (email_blocks (py_repr env) 1 (map summary msgs)), Inr ())"
proof -
  have "fetch_body env token =
      (HttpGet endpoint (headers (py_repr env) token) params
         # map Print (email_blocks (py_repr env) 1 (map summary msgs)), Inr ())"
    using fetch_body_items [OF assms(3-6)] print_emails_well_formed [OF assms(7)]
    by simp
  from fetch_with_token_returns [OF assms(2) this] fetch_emails_graph_token [OF assms(1)]
  show ?thesis by simp
qed


text \<open>
  Claim C6. When the body of a response with a status from 200 to 299 is an object with
  no key \<open>value\<close>, the results are the empty sequence: after the request nothing more
  is printed, neither a block nor an error, and the run returns.
\<close>

theorem missing_results_array_is_empty:
  assumes "authenticate_graph env = (t, Inr token)" and "py_truthy token"
    and "requests_get env = Inr resp"
    and "200 \<le> status_code resp" and "status_code resp < 300"
    and "json_body resp = Inr (JObj body)"
    and "map_of body ''value'' = None"
  shows "fetch_emails_graph env =
      (t @ [Print success_banner, HttpGet endpoint (headers (py_repr env) token) params],
       Inr ())
    \<and> printed (fst (fetch_emails_graph env)) = printed t @ [success_banner]"
proof -
  have "py_iter (case map_of body ''value'' of Some v \<Rightarrow> v | None \<Rightarrow> JArr []) = Inr []"
    using assms(7) by simp
  from run_well_formed [OF assms(1-3) status_2xx_passes [OF assms(4,5)] assms(6) this]
  show ?thesis by (simp add: printed_append email_blocks_Nil)
qed

lemma authenticate_graph_example:
  "authenticate_graph (example_env\<lparr>requests_get := r\<rparr>) = (example_login, Inr (JStr ''tok-1''))"
  by (simp add: authenticate_graph_def login_result_def silent_login_def io_defs
        example_env_def example_login_def has_key_def getitem_def)

lemma summary_example_messages:
  "map summary example_messages =
     [\<lparr>ms_sender = JStr ''ann@example.com'', ms_subject = JStr ''Lunch'',
       ms_date = JStr ''2024-05-02T10:00:00Z'', ms_preview = JStr ''Noon?''\<rparr>,
      \<lparr>ms_sender = JStr ''bob@example.com'', ms_subject = JStr ''Report'',
       ms_date = JStr ''2024-05-01T09:00:00Z'', ms_preview = JStr ''Attached.''\<rparr>]"
  by (simp add: example_messages_def summary_def field_of_def)

lemma example_blocks:
  "email_blocks rp 1 (map summary example_messages) =
     [''--- Email 1 ---'', ''From:    ann@example.com'', ''Subject: Lunch'',
      ''Date:    2024-05-02T10:00:00Z'', ''Preview: Noon?'', [],
      ''--- Email 2 ---'', ''From:    bob@example.com'', ''Subject: Report'',
      ''Date:    2024-05-01T09:00:00Z'', ''Preview: Attached.'', []]"
  unfolding summary_example_messages
  by (simp add: email_blocks_Cons email_blocks_Nil email_block_def show_nat.simps)




theorem missing_results_array_is_empty_witness:
  "fetch_emails_graph (example_env\<lparr>requests_get :=
       Inr (example_response 200 (JObj [(''count'', JInt 0)]))\<rparr>) =
     (example_login @
      [Print success_banner, HttpGet endpoint (headers (\<lambda>v. []) (JStr ''tok-1'')) params],
      Inr ())"
proof -
  have "py_repr (example_env\<lparr>requests_get :=
       Inr (example_response 200 (JObj [(''count'', JInt 0)]))\<rparr>) = (\<lambda>v. [])"
    by (simp add: example_env_def)
  with missing_results_array_is_empty [OF authenticate_graph_example, of
      "Inr (example_response 200 (JObj [(''count'', JInt 0)]))"
      "example_response 200 (JObj [(''count'', JInt 0)])" "[(''count'', JInt 0)]"]
  show ?thesis by (simp add: example_response_def)
qed






lemma print_email_null_from:
  assumes "map_of kvs ''from'' = Some JNull"
  shows "print_email rp i (JObj kvs) =
    ([Print (''--- Email '' @ show_nat i @ '' ---'')],
     Inl (PyExc AttributeError
            (quoted ''NoneType'' @ '' object has no attribute '' @ quoted ''get'')))"
  using assms by (simp add: print_email_def sender_address_def io_defs)

lemma print_emails_stop:
  assumes "\<forall>m \<in> set pre. well_formed_message m"
    and "print_email rp (i + length pre) m = (t', Inl e)"
  shows "print_emails rp i (pre @ m # post) =
    (map Print (email_blocks rp i (map summary pre)) @ t', Inl e)"
  using assms
proof (induction pre arbitrary: i)
  case Nil
  then show ?case by (simp add: io_then_def io_bind_def email_blocks_Nil)
next
  case (Cons p pre)
  have "print_email rp (Suc i + length pre) m = (t', Inl e)"
    using Cons.prems(2) by simp
  with Cons.IH [of "Suc i"] Cons.prems(1)
  have "print_emails rp (Suc i) (pre @ m # post) =
      (map Print (email_blocks rp (Suc i) (map summary pre)) @ t', Inl e)"
    by simp
  moreover have "print_email rp i p = (map Print (email_block rp i (summary p)), Inr ())"
    using Cons.prems(1) by (simp add: print_email_well_formed)
  ultimately show ?case
    by (simp add: io_then_def io_bind_def email_blocks_Cons)
qed

text \<open>
  Claim C10, as amended. When the \<open>from\<close> key of a message object is bound to
  \<open>null\<close> and the messages before it are well formed, the blocks of the messages before
  it are printed, then the header line \<open>--- Email k ---\<close> of that message, then one line
  \<open>An error occurred: 'NoneType' object has no attribute 'get'\<close>; none of its fields and
  nothing of the messages after it is printed, and the run returns.
\<close>

theorem null_sender_stops_listing:
  assumes "authenticate_graph env = (t, Inr token)" and "py_truthy token"
    and "requests_get env = Inr resp"
    and "200 \<le> status_code resp" and "status_code resp < 300"
    and "json_body resp = Inr (JObj body)"
    and "map_of body ''value'' = Some (JArr (pre @ JObj kvs # post))"
    and "\<forall>m \<in> set pre. well_formed_message m"
    and "map_of kvs ''from'' = Some JNull"
  shows "fetch_emails_graph env =
    (t @ [Print success_banner, HttpGet endpoint (headers (py_repr env) token) params]
       @ map Print (email_blocks (py_repr env) 1 (map summary pre))
       @ [Print (''--- Email '' @ show_nat (Suc (length pre)) @ '' ---''),
          Print (''An error occurred: '' @ quoted ''NoneType''
                   @ '' object has no attribute '' @ quoted ''get'')],
     Inr ())"
proof -
  let ?e = "PyExc AttributeError
              (quoted ''NoneType'' @ '' object has no attribute '' @ quoted ''get'')"
  have "print_email (py_repr env) (1 + length pre) (JObj kvs) =
      ([Print (''--- Email '' @ show_nat (Suc (length pre)) @ '' ---'')], Inl ?e)"
    using print_email_null_from [OF assms(9), of "py_repr env" "1 + length pre"] by simp
  from print_emails_stop [OF assms(8) this]
  have loop: "print_emails (py_repr env) 1 (pre @ JObj kvs # post) =
      (map Print (email_blocks (py_repr env) 1 (map summary pre))
         @ [Print (''--- Email '' @ show_nat (Suc (length pre)) @ '' ---'')], Inl ?e)" .
  have "py_iter (case map_of body ''value'' of Some v \<Rightarrow> v | None \<Rightarrow> JArr [])
      = Inr (pre @ JObj kvs # post)"
    using assms(7) by simp
  from fetch_body_items [OF assms(3) status_2xx_passes [OF assms(4,5)] assms(6) this, of token]
  have "fetch_body env token =
      (HttpGet endpoint (headers (py_repr env) token) params
         # map Print (email_blocks (py_repr env) 1 (map summary pre))
         @ [Print (''--- Email '' @ show_nat (Suc (length pre)) @ '' ---'')], Inl ?e)"
    using loop by simp
  from fetch_with_token_caught [OF assms(2) this] fetch_emails_graph_token [OF assms(1)]
  show ?thesis by simp
qed

theorem null_sender_stops_listing_witness:
  "printed (fst (fetch_emails_graph (example_env\<lparr>requests_get :=
       Inr (example_response 200 (JObj [(''value'',
         JArr (example_messages @ JObj [(''from'', JNull), (''subject'', JStr ''Draft'')]
                # example_messages))]))\<rparr>))) =
     [''Found cached account, attempting silent login...'', success_banner,
      ''--- Email 1 ---'', ''From:    ann@example.com'', ''Subject: Lunch'',
      ''Date:    2024-05-02T10:00:00Z'', ''Preview: Noon?'', [],
      ''--- Email 2 ---'', ''From:    bob@example.com'', ''Subject: Report'',
      ''Date:    2024-05-01T09:00:00Z'', ''Preview: Attached.'', [],
      ''--- Email 3 ---'',
      ''An error occurred: '' @ quoted ''NoneType''
         @ '' object has no attribute '' @ quoted ''get'']"
proof -
  let ?kvs = "[(''from'', JNull), (''subject'', JStr ''Draft'')]"
  let ?msgs = "example_messages @ JObj ?kvs # example_messages"
  let ?resp = "example_response 200 (JObj [(''value'', JArr ?msgs)])"
  let ?env = "example_env\<lparr>requests_get := Inr ?resp\<rparr>"
  have p: "py_truthy (JStr ''tok-1'')" by simp
  have r: "requests_get ?env = Inr ?resp" by simp
  have s1: "200 \<le> status_code ?resp" and s2: "status_code ?resp < 300"
    by (simp_all add: example_response_def)
  have j: "json_body ?resp = Inr (JObj [(''value'', JArr ?msgs)])"
    by (simp add: example_response_def)
  have v: "map_of [(''value'', JArr ?msgs)] ''value'' = Some (JArr ?msgs)" by simp
  have w: "\<forall>m \<in> set example_messages. well_formed_message m"
    by (simp add: example_messages_def well_formed_message_def)
  have n: "map_of ?kvs ''from'' = Some JNull" by simp
  have l: "show_nat (Suc (length example_messages)) = ''3''"
    by (simp add: example_messages_def show_nat.simps)
  from null_sender_stops_listing [OF authenticate_graph_example p r s1 s2 j v w n]
  have "printed (fst (fetch_emails_graph ?env)) =
      printed example_login @ [success_banner]
        @ email_blocks (py_repr ?env) 1 (map summary example_messages)
        @ [''--- Email '' @ show_nat (Suc (length example_messages)) @ '' ---'',
           ''An error occurred: '' @ quoted ''NoneType''
             @ '' object has no attribute '' @ quoted ''get'']"
    by (simp add: printed_append printed_map_Print)
  then show ?thesis
    unfolding l
    using example_blocks [of "py_repr ?env"] by (simp add: example_login_def)
qed







lemma fetch_with_token_null_first:
  "fetch_with_token (example_env\<lparr>requests_get :=
       Inr (example_response 200 (JObj [(''value'',
         JArr [JObj [(''subject'', JStr ''Draft''), (''from'', JNull)],
               JObj [(''subject'', JStr ''Later'')]])]))\<rparr>) (JStr ''tok-1'') =
     ([Print success_banner,
       HttpGet endpoint (headers (\<lambda>v. []) (JStr ''tok-1'')) params,
       Print ''--- Email 1 ---'',
       Print (''An error occurred: '' @ quoted ''NoneType''
                @ '' object has no attribute '' @ quoted ''get'')], Inr ())"
  by (simp add: fetch_with_token_def fetch_body_def print_email_def sender_address_def
        raise_for_status_def io_defs io_try_def example_response_def example_env_def
        success_banner_def show_nat.simps)

text \<open>
  Claim C10 as stated says that the message whose \<open>from\<close> is \<open>null\<close> is not printed.
  Its header line is: line 79 prints it before line 80 raises.
\<close>

theorem null_sender_stops_listing_counterexample:
  "printed (fst (fetch_emails_graph (example_env\<lparr>requests_get :=
       Inr (example_response 200 (JObj [(''value'',
         JArr [JObj [(''subject'', JStr ''Draft''), (''from'', JNull)],
               JObj [(''subject'', JStr ''Later'')]])]))\<rparr>))) =
     [''Found cached account, attempting silent login...'', success_banner,
      ''--- Email 1 ---'',
      ''An error occurred: '' @ quoted ''NoneType''
         @ '' object has no attribute '' @ quoted ''get'']"
  using fetch_emails_graph_token [OF authenticate_graph_example]
  by (simp add: fetch_with_token_null_first printed_append example_login_def)

lemma py_get_raises:
  assumes "py_get x k d = Inl e"
  shows "is_Exception e"
  using assms by (cases x) auto

lemma py_iter_raises:
  assumes "py_iter x = Inl e"
  shows "is_Exception e"
  using assms by (cases x) auto

lemma raise_for_status_raises:
  assumes "raise_for_status r = Inl e"
  shows "is_Exception e"
  using assms by (auto simp add: raise_for_status_def split: if_splits)

lemma sender_address_raises:
  assumes "sender_address m = Inl e"
  shows "is_Exception e"
  using assms
  by (auto simp add: sender_address_def split: sum.splits dest: py_get_raises)

lemma snd_io_then:
  "snd (io_then m n) = (case snd m of Inl e \<Rightarrow> Inl e | Inr x \<Rightarrow> snd n)"
  by (simp add: io_then_def snd_io_bind)

lemma print_email_raises:
  assumes "snd (print_email rp i m) = Inl e"
  shows "is_Exception e"
  using assms
  by (auto simp add: print_email_def snd_io_bind snd_io_then io_print_def io_lift_def
        split: sum.splits dest: py_get_raises sender_address_raises)

lemma print_emails_raises:
  assumes "snd (print_emails rp i ms) = Inl e"
  shows "is_Exception e"
  using assms
proof (induction ms arbitrary: i)
  case Nil
  then show ?case by (simp add: io_return_def)
next
  case (Cons m ms)
  then show ?case
    by (auto simp add: snd_io_then split: sum.splits dest: print_email_raises)
qed

lemma fetch_body_raises:
  assumes "snd (fetch_body env token) = Inl e"
  shows "is_Exception e \<or> requests_get env = Inl e
    \<or> (\<exists>resp. requests_get env = Inr resp \<and> json_body resp = Inl e)"
  using assms
  by (auto simp add: fetch_body_def snd_io_bind io_call_def io_lift_def
        split: sum.splits
        dest: py_get_raises py_iter_raises raise_for_status_raises print_emails_raises)

lemma fetch_body_starts_with_request:
  "\<exists>rest. fst (fetch_body env token) =
     HttpGet endpoint (headers (py_repr env) token) params # rest"
  by (simp add: fetch_body_def fst_io_bind io_call_def)

lemma fetch_with_token_outcome:
  assumes "\<forall>e. snd (fetch_body env token) = Inl e \<longrightarrow> is_Exception e"
  shows "fetch_with_token env token =
    ((if py_truthy token then
        Print success_banner # fst (fetch_body env token)
          @ (case snd (fetch_body env token) of
               Inl x \<Rightarrow> [Print (''An error occurred: '' @ str_exc x)]
             | Inr u \<Rightarrow> [])
      else [Print ''Authentication failed. Exiting.'']), Inr ())"
proof (cases "py_truthy token")
  case False
  then show ?thesis by (simp add: fetch_with_token_def io_print_def)
next
  case True
  show ?thesis
  proof (cases "fetch_body env token")
    case (Pair tb r)
    show ?thesis
    proof (cases r)
      case (Inl x)
      with Pair assms have "is_Exception x" by simp
      from fetch_with_token_caught [OF True _ this, of env tb] Pair Inl True
      show ?thesis by simp
    next
      case (Inr u)
      from fetch_with_token_returns [OF True, of env tb] Pair Inr True
      show ?thesis by simp
    qed
  qed
qed

text \<open>
  Claim C7, as amended. When \<open>authenticate_graph\<close> returns (a token or \<open>None\<close>) and the
  exceptions the HTTP library raises are of class \<open>Exception\<close>, \<open>fetch_emails_graph\<close>
  prints its diagnostics and returns normally. With a falsy token it prints
  \<open>Authentication failed. Exiting.\<close> and returns. With a truthy token it prints the
  banner and runs the \<open>try\<close> body of lines 73 to 84, which begins with the HTTP request;
  when that body raises an exception \<open>x\<close>, the run prints the line
  \<open>An error occurred: x\<close> after what the body had printed, and returns; when the body
  completes, the run returns after it. An exception raised inside \<open>authenticate_graph\<close>,
  which is called outside the \<open>try\<close> statement, leaves \<open>fetch_emails_graph\<close>
  unhandled.
\<close>

theorem returns_unless_login_raises:
  "(authenticate_graph env = (t, Inr token)
      \<and> (\<forall>e. requests_get env = Inl e \<longrightarrow> is_Exception e)
      \<and> (\<forall>resp e. requests_get env = Inr resp \<and> json_body resp = Inl e \<longrightarrow> is_Exception e)
     \<longrightarrow> fetch_emails_graph env =
           (t @ (if py_truthy token then
                   Print success_banner # fst (fetch_body env token)
                     @ (case snd (fetch_body env token) of
                          Inl x \<Rightarrow> [Print (''An error occurred: '' @ str_exc x)]
                        | Inr u \<Rightarrow> [])
                 else [Print ''Authentication failed. Exiting.'']), Inr ())
         \<and> (\<exists>rest. fst (fetch_body env token) =
               HttpGet endpoint (headers (py_repr env) token) params # rest))
   \<and> (authenticate_graph env = (t, Inl e) \<longrightarrow> fetch_emails_graph env = (t, Inl e))"
proof (intro conjI impI)
  assume h: "authenticate_graph env = (t, Inr token)
      \<and> (\<forall>e. requests_get env = Inl e \<longrightarrow> is_Exception e)
      \<and> (\<forall>resp e. requests_get env = Inr resp \<and> json_body resp = Inl e \<longrightarrow> is_Exception e)"
  have "\<forall>e. snd (fetch_body env token) = Inl e \<longrightarrow> is_Exception e"
    using h fetch_body_raises [of env token] by blast
  from fetch_with_token_outcome [OF this] h fetch_emails_graph_token [of env t token]
  show "fetch_emails_graph env =
           (t @ (if py_truthy token then
                   Print success_banner # fst (fetch_body env token)
                     @ (case snd (fetch_body env token) of
                          Inl x \<Rightarrow> [Print (''An error occurred: '' @ str_exc x)]
                        | Inr u \<Rightarrow> [])
                 else [Print ''Authentication failed. Exiting.'']), Inr ())"
    by simp
next
  show "\<exists>rest. fst (fetch_body env token) =
               HttpGet endpoint (headers (py_repr env) token) params # rest"
    by (rule fetch_body_starts_with_request)
next
  assume "authenticate_graph env = (t, Inl e)"
  then show "fetch_emails_graph env = (t, Inl e)"
    by (simp add: fetch_emails_graph_def io_bind_def)
qed

theorem returns_unless_login_raises_witness:
  "fetch_emails_graph (example_env\<lparr>requests_get := Inr (example_response 200 JNull)\<rparr>) =
     (example_login @
      [Print success_banner,
       HttpGet endpoint (headers (\<lambda>v. []) (JStr ''tok-1'')) params,
       Print (''An error occurred: '' @ quoted ''NoneType''
                @ '' object has no attribute '' @ quoted ''get'')], Inr ())
   \<and> fetch_emails_graph (example_env\<lparr>get_accounts :=
        Inl (PyExc RequestException ''offline'')\<rparr>) =
      ([NewApp CLIENT_ID (''https://login.microsoftonline.com/'' @ TENANT_ID), GetAccounts],
       Inl (PyExc RequestException ''offline''))"
proof -
  let ?env1 = "example_env\<lparr>requests_get := Inr (example_response 200 JNull)\<rparr>"
  have h1: "\<forall>e. requests_get ?env1 = Inl e \<longrightarrow> is_Exception e"
    by simp
  have h2: "\<forall>resp e. requests_get ?env1 = Inr resp \<and> json_body resp = Inl e
      \<longrightarrow> is_Exception e"
    by (auto simp add: example_response_def)
  have b: "fetch_body ?env1 (JStr ''tok-1'') =
      ([HttpGet endpoint (headers (\<lambda>v. []) (JStr ''tok-1'')) params],
       Inl (PyExc AttributeError
              (quoted ''NoneType'' @ '' object has no attribute '' @ quoted ''get'')))"
    by (simp add: fetch_body_def raise_for_status_def io_defs example_response_def
          example_env_def)
  from returns_unless_login_raises [of ?env1 example_login "JStr ''tok-1''"]
    authenticate_graph_example [of "Inr (example_response 200 JNull)"] h1 h2
  have "fetch_emails_graph ?env1 =
           (example_login @ (if py_truthy (JStr ''tok-1'') then
                   Print success_banner # fst (fetch_body ?env1 (JStr ''tok-1''))
                     @ (case snd (fetch_body ?env1 (JStr ''tok-1'')) of
                          Inl x \<Rightarrow> [Print (''An error occurred: '' @ str_exc x)]
                        | Inr u \<Rightarrow> [])
                 else [Print ''Authentication failed. Exiting.'']), Inr ())"
    by blast
  then have x: "fetch_emails_graph ?env1 =
     (example_login @
      [Print success_banner,
       HttpGet endpoint (headers (\<lambda>v. []) (JStr ''tok-1'')) params,
       Print (''An error occurred: '' @ quoted ''NoneType''
                @ '' object has no attribute '' @ quoted ''get'')], Inr ())"
    by (simp add: b)
  let ?env = "example_env\<lparr>get_accounts := Inl (PyExc RequestException ''offline'')\<rparr>"
  have "authenticate_graph ?env =
      ([NewApp CLIENT_ID (''https://login.microsoftonline.com/'' @ TENANT_ID), GetAccounts],
       Inl (PyExc RequestException ''offline''))"
    by (simp add: authenticate_graph_def login_result_def silent_login_def io_defs
          example_env_def)
  with returns_unless_login_raises [of ?env
      "[NewApp CLIENT_ID (''https://login.microsoftonline.com/'' @ TENANT_ID), GetAccounts]"
      _ "PyExc RequestException ''offline''"]
  have y: "fetch_emails_graph ?env =
      ([NewApp CLIENT_ID (''https://login.microsoftonline.com/'' @ TENANT_ID), GetAccounts],
       Inl (PyExc RequestException ''offline''))"
    by blast
  from x y show ?thesis by simp
qed

text \<open>
  Claim C7 as stated covers every run. When the answer to the device-flow request has no
  \<open>user_code\<close>, line 32 raises \<open>ValueError\<close>, which nothing catches: the run ends with
  the exception, not with a normal return.
\<close>

theorem returns_unless_login_raises_counterexample:
  "fetch_emails_graph (example_env\<lparr>get_accounts := Inr [],
       initiate_device_flow := Inr [(''error'', JStr ''invalid_client'')]\<rparr>) =
     ([NewApp CLIENT_ID (''https://login.microsoftonline.com/'' @ TENANT_ID), GetAccounts,
       Print ''No cached token found. Starting interactive login...'',
       InitiateDeviceFlow SCOPES],
      Inl (PyExc ValueError ''Fail to create device flow. Err: {}''))"
  by (simp add: fetch_emails_graph_def authenticate_graph_def login_result_def
        silent_login_def device_login_def io_defs example_env_def has_key_def)

section \<open>The token and the console\<close>

lemma map_of_swap_token:
  "map_of (swap_token f d) k =
     (if k = ''access_token'' then map_option f (map_of d k) else map_of d k)"
  by (induction d) (auto simp add: swap_token_def)

lemma has_key_swap_token: "has_key k (swap_token f d) = has_key k d"
  by (simp add: has_key_def map_of_swap_token)

lemma swap_token_Nil: "swap_token f d = [] \<longleftrightarrow> d = []"
  by (simp add: swap_token_def)






lemma requests_get_with_tokens: "requests_get (with_tokens f env) = requests_get env"
  by (simp add: with_tokens_def)






lemma redact_Print: "map redact (map Print ls) = map Print ls"
  by (induction ls) simp_all





end
